theory Spec2Isabelle
  imports Main "HOL-Library.Multiset"
begin

section \<open>The Scantastic pairing modal (ScantasticModal.tsx)\<close>

text \<open>
  The component \<^verbatim>\<open>ScantasticModal\<close> keeps six pieces of view state and changes them in
  three places: the confirm handler \<^verbatim>\<open>onEncryptSeedphrase\<close>, the polling callback
  \<^verbatim>\<open>checkOTPState\<close> and the one-second interval that compares the expiry with the clock.
  Each of them is embedded as a function from the state before to the state after,
  together with the list of effects it performs (calls of the encryption helper,
  HTTP requests, log entries, store dispatches). What the outside world answers
  (the outcome of a promise, the HTTP response, the reading of the clock) is an
  argument of the function, so every \<^verbatim>\<open>throw\<close>, rejected promise and early \<^verbatim>\<open>return\<close> of
  the source is a branch of the model. A handler runs from its call to its last state
  update as one step.
\<close>

subsection \<open>Constants\<close>

text \<open>
  Modelled from the spec: \<^verbatim>\<open>utilities/src/time/time\<close> is imported by the component but is
  not among the source files; the windows are named in minutes and seconds of
  millisecond timestamps, so one second is 1000 and one minute is 60 seconds.
\<close>

definition ONE_SECOND_MS :: int where
  "ONE_SECOND_MS = 1000"

definition ONE_MINUTE_MS :: int where
  "ONE_MINUTE_MS = 60 * ONE_SECOND_MS"

definition IP_MISMATCH_STATUS_CODE :: nat where
  "IP_MISMATCH_STATUS_CODE = 401"

text \<open>The string values of \<^verbatim>\<open>enum OtpState\<close>.\<close>

definition OtpState_Pending :: string where
  "OtpState_Pending = ''pending''"

definition OtpState_Redeemed :: string where
  "OtpState_Redeemed = ''redeemed''"

definition OtpState_Expired :: string where
  "OtpState_Expired = ''expired''"

subsection \<open>Data\<close>

text \<open>A signer account, as far as the component reads it.\<close>

record account_t =
  address :: string
  derivationIndex :: int

text \<open>The public key \<^verbatim>\<open>{ n, e }\<close> of the scanned code.\<close>

datatype pub_key = PubKey string string

text \<open>
  What a render of the component is given from outside its own state: the account chosen
  at the top of the function body and the constants \<^verbatim>\<open>pubKey = params?.publicKey\<close> and
  \<^verbatim>\<open>uuid = params?.uuid\<close>, each \<open>None\<close> when the parameter is missing.
\<close>

record props =
  account :: account_t
  pubKey :: "pub_key option"
  uuid :: "string option"

text \<open>The \<^verbatim>\<open>useState\<close> cells. \<^verbatim>\<open>expiryText\<close> only feeds the countdown label and is left out.\<close>

record modal_state =
  OTP :: string
  expirationTimestamp :: int
  expired :: bool
  redeemed :: bool
  error :: string
  showIPWarning :: bool

text \<open>The outcome of awaiting a promise.\<close>

datatype 'a promise = Rejected | Resolved 'a

text \<open>
  A \<^verbatim>\<open>fetch\<close> response: its HTTP status and the outcome of \<^verbatim>\<open>response.json()\<close>.
\<close>

datatype 'a response = Response nat "'a promise"

text \<open>
  The body of the submit-blob answer is read only through \<^verbatim>\<open>data?.otp\<close>: \<open>None\<close> when
  the member (or the whole body) is missing, otherwise the string sent.
\<close>

type_synonym blob_data = "string option"

record OtpStateApiResponse =
  otp :: "string option"
  expiresAtInSeconds :: "int option"

datatype action =
    PushNotification_ScantasticComplete int
  | SetExtensionOnboardingState_Completed
  | CloseAllModals

datatype effect =
    GetEncryptedMnemonic string string string
  | FetchBlob "string option" string
  | FetchOtpState string
  | LoggerError string
  | Dispatch action

datatype failure = NoMnemonicAccounts

text \<open>\<^verbatim>\<open>response.ok\<close>: a status in the range 200 to 299.\<close>

definition ok :: "nat \<Rightarrow> bool" where
  "ok st = (200 \<le> st \<and> st \<le> 299)"

text \<open>
  The translation function of react-i18next is outside the repository; a message is
  represented by its key.
\<close>

definition t_key :: "string \<Rightarrow> string" where
  "t_key k = k"

subsection \<open>Mounting: account selection and initial state\<close>

text \<open>
  \<^verbatim>\<open>useSignerAccounts().sort((a1, a2) => a1.derivationIndex - a2.derivationIndex)[0]\<close>, and
  the \<^verbatim>\<open>throw\<close> when there is none. \<^verbatim>\<open>Array.prototype.sort\<close> is stable, as \<open>sort_key\<close> is.
\<close>

definition select_account :: "account_t list \<Rightarrow> failure + account_t" where
  "select_account accounts =
     (case sort_key derivationIndex accounts of
        [] \<Rightarrow> Inl NoMnemonicAccounts
      | a # _ \<Rightarrow> Inr a)"

definition initial_state :: "int \<Rightarrow> modal_state" where
  "initial_state now =
     \<lparr> OTP = [], expirationTimestamp = now + 6 * ONE_MINUTE_MS, expired = False,
       redeemed = False, error = [], showIPWarning = False \<rparr>"

definition ScantasticModal_mount ::
  "account_t list \<Rightarrow> pub_key option \<Rightarrow> string option \<Rightarrow> int \<Rightarrow> failure + (props \<times> modal_state)" where
  "ScantasticModal_mount accounts pk u now =
     (case select_account accounts of
        Inl err \<Rightarrow> Inl err
      | Inr a \<Rightarrow> Inr (\<lparr> account = a, pubKey = pk, uuid = u \<rparr>, initial_state now))"

subsection \<open>The confirm handler\<close>

text \<open>
  The catch block of the second \<^verbatim>\<open>try\<close> of \<^verbatim>\<open>onEncryptSeedphrase\<close>: the message
  \<^verbatim>\<open>scantastic.error.noCode\<close> and a log entry.
\<close>

definition submit_failed :: "modal_state \<Rightarrow> effect list \<Rightarrow> modal_state \<times> effect list" where
  "submit_failed s effs =
     (s\<lparr>error := t_key ''scantastic.error.noCode''\<rparr>,
      effs @ [LoggerError ''onEncryptSeedphrase->fetch''])"

text \<open>
  The first \<^verbatim>\<open>try\<close>: the call of \<^verbatim>\<open>getEncryptedMnemonic\<close>. Its catch block sets the message
  and logs; it does not return, and \<^verbatim>\<open>encryptedSeedphrase\<close> keeps its initial value, the
  empty string. The result is the state, the blob and the effects so far.
\<close>

definition encrypt_step ::
  "props \<Rightarrow> pub_key \<Rightarrow> string promise \<Rightarrow> modal_state \<Rightarrow> modal_state \<times> string \<times> effect list" where
  "encrypt_step p k enc s =
     (case k of PubKey kn ke \<Rightarrow>
        (case enc of
           Resolved blob \<Rightarrow>
             (s, blob, [GetEncryptedMnemonic (address (account p)) kn ke])
         | Rejected \<Rightarrow>
             (s\<lparr>error := t_key ''scantastic.error.encryption''\<rparr>, [],
              [GetEncryptedMnemonic (address (account p)) kn ke,
               LoggerError ''onEncryptSeedphrase->getEncryptedMnemonic''])))"

text \<open>
  The second \<^verbatim>\<open>try\<close>: the POST of the blob and the reading of the answer, at clock
  reading \<open>now\<close>.
\<close>

definition submit_step ::
  "props \<Rightarrow> string \<Rightarrow> blob_data response promise \<Rightarrow> int \<Rightarrow> modal_state \<Rightarrow> effect list
     \<Rightarrow> modal_state \<times> effect list" where
  "submit_step p blob resp now s effs =
     (let effs' = effs @ [FetchBlob (uuid p) blob] in
      case resp of
        Rejected \<Rightarrow> submit_failed s effs'
      | Resolved (Response st body) \<Rightarrow>
          if st = IP_MISMATCH_STATUS_CODE then (s\<lparr>showIPWarning := True\<rparr>, effs')
          else if \<not> ok st then submit_failed s effs'
          else
            (case body of
               Rejected \<Rightarrow> submit_failed s effs'
             | Resolved d \<Rightarrow>
                 (case d of
                    None \<Rightarrow> submit_failed s effs'
                  | Some v \<Rightarrow>
                      if v = [] then submit_failed s effs'
                      else (s\<lparr>expirationTimestamp := now + ONE_MINUTE_MS * 2, OTP := v\<rparr>, effs'))))"

definition onEncryptSeedphrase ::
  "props \<Rightarrow> string promise \<Rightarrow> blob_data response promise \<Rightarrow> int \<Rightarrow> modal_state
     \<Rightarrow> modal_state \<times> effect list" where
  "onEncryptSeedphrase p enc resp now s =
     (case pubKey p of
        None \<Rightarrow> (s, [])
      | Some k \<Rightarrow>
          (case encrypt_step p k enc (s\<lparr>error := []\<rparr>) of
             (s1, blob, effs) \<Rightarrow> submit_step p blob resp now s1 effs))"

subsection \<open>The polling callback\<close>

definition poll_failed :: "modal_state \<Rightarrow> string \<Rightarrow> modal_state \<times> effect list" where
  "poll_failed s u = (s, [FetchOtpState u, LoggerError ''checkOTPState''])"

definition checkOTPState ::
  "props \<Rightarrow> OtpStateApiResponse response promise \<Rightarrow> modal_state \<Rightarrow> modal_state \<times> effect list" where
  "checkOTPState p resp s =
     (case uuid p of
        None \<Rightarrow> (s, [])
      | Some u \<Rightarrow>
          if OTP s = [] \<or> u = [] then (s, [])
          else
            (case resp of
               Rejected \<Rightarrow> poll_failed s u
             | Resolved (Response st body) \<Rightarrow>
                 if \<not> ok st then poll_failed s u
                 else
                   (case body of
                      Rejected \<Rightarrow> poll_failed s u
                    | Resolved d \<Rightarrow>
                        (case otp d of
                           None \<Rightarrow> poll_failed s u
                         | Some otpState \<Rightarrow>
                             if otpState = [] then poll_failed s u
                             else
                               (let s1 = (case expiresAtInSeconds d of
                                            None \<Rightarrow> s
                                          | Some x \<Rightarrow>
                                              if x \<noteq> 0
                                              then s\<lparr>expirationTimestamp := x * ONE_SECOND_MS\<rparr>
                                              else s);
                                    s2 = (if otpState = OtpState_Redeemed
                                          then s1\<lparr>redeemed := True\<rparr> else s1);
                                    s3 = (if otpState = OtpState_Expired
                                          then s2\<lparr>expired := True\<rparr> else s2)
                                in (s3, [FetchOtpState u]))))))"

subsection \<open>The expiry interval\<close>

text \<open>
  The body of the \<^verbatim>\<open>setInterval\<close> callback:
  \<^verbatim>\<open>timeLeft = expirationTimestamp - Date.now(); setExpired(timeLeft <= 0)\<close>.
\<close>

definition tick :: "int \<Rightarrow> modal_state \<Rightarrow> modal_state" where
  "tick now s = s\<lparr>expired := (expirationTimestamp s - now \<le> 0)\<rparr>"

subsection \<open>Rendering\<close>

datatype screen =
    IpMismatchScreen
  | TimeoutScreen
  | CodeScreen string
  | ErrorScreen string
  | ConfirmationScreen

text \<open>
  The dispatches in the render body, made on every render in which \<^verbatim>\<open>redeemed\<close> is set.
\<close>

definition completion_signal :: "action list" where
  "completion_signal =
     [PushNotification_ScantasticComplete (6 * ONE_SECOND_MS),
      SetExtensionOnboardingState_Completed,
      CloseAllModals]"

definition render_dispatches :: "modal_state \<Rightarrow> effect list" where
  "render_dispatches s = (if redeemed s then map Dispatch completion_signal else [])"

text \<open>The chain of early returns that picks the screen.\<close>

definition render_screen :: "modal_state \<Rightarrow> screen" where
  "render_screen s =
     (if showIPWarning s then IpMismatchScreen
      else if expired s then TimeoutScreen
      else if OTP s \<noteq> [] then CodeScreen (OTP s)
      else if error s \<noteq> [] then ErrorScreen (error s)
      else ConfirmationScreen)"

text \<open>
  The component has no status variable. The status of a session is read off a render:
  \<open>Redeemed\<close> when the render dispatches the completion signal (which closes the modal,
  whichever screen the same render returns), otherwise the screen returned. No state of
  a handler that has run to its end is \<open>Encrypting\<close>.
\<close>

datatype status =
    AwaitingConfirmation
  | Encrypting
  | AwaitingRedemption
  | Redeemed
  | Expired
  | IpMismatch
  | Failed string

definition status_of :: "modal_state \<Rightarrow> status" where
  "status_of s =
     (if redeemed s then Redeemed
      else
        (case render_screen s of
           IpMismatchScreen \<Rightarrow> IpMismatch
         | TimeoutScreen \<Rightarrow> Expired
         | CodeScreen c \<Rightarrow> AwaitingRedemption
         | ErrorScreen m \<Rightarrow> Failed m
         | ConfirmationScreen \<Rightarrow> AwaitingConfirmation))"

subsection \<open>Sequences of calls\<close>

datatype event =
    Confirm "string promise" "blob_data response promise" int
  | Poll "OtpStateApiResponse response promise"
  | Tick int

fun handle :: "props \<Rightarrow> event \<Rightarrow> modal_state \<Rightarrow> modal_state \<times> effect list" where
  "handle p (Confirm enc resp now) s = onEncryptSeedphrase p enc resp now s"
| "handle p (Poll resp) s = checkOTPState p resp s"
| "handle p (Tick now) s = (tick now s, [])"

fun run :: "props \<Rightarrow> event list \<Rightarrow> modal_state \<Rightarrow> modal_state" where
  "run p [] s = s"
| "run p (ev # evs) s = run p evs (fst (handle p ev s))"

subsection \<open>Predicates and example values used in the statements\<close>

text \<open>
  A poll that fails: the request is rejected in transport, the answer has a status
  outside 200 to 299, its body cannot be read, or the body has no (or an empty)
  \<^verbatim>\<open>otp\<close> member.
\<close>

fun poll_failure :: "OtpStateApiResponse response promise \<Rightarrow> bool" where
  "poll_failure Rejected = True"
| "poll_failure (Resolved (Response st Rejected)) = True"
| "poll_failure (Resolved (Response st (Resolved d))) =
     (\<not> ok st \<or> otp d = None \<or> otp d = Some [])"

definition example_props :: props where
  "example_props =
     \<lparr> account = \<lparr> address = ''0xA1'', derivationIndex = 0 \<rparr>,
       pubKey = Some (PubKey ''n'' ''e''),
       uuid = Some ''abc'' \<rparr>"

text \<open>A session that shows the code \<^verbatim>\<open>123456\<close>, valid until 120000.\<close>

definition code_shown :: modal_state where
  "code_shown =
     \<lparr> OTP = ''123456'', expirationTimestamp = 120000, expired = False,
       redeemed = False, error = [], showIPWarning = False \<rparr>"

text \<open>The addresses passed to \<^verbatim>\<open>getEncryptedMnemonic\<close>, in the order of the calls.\<close>

fun encryption_addresses :: "effect list \<Rightarrow> string list" where
  "encryption_addresses [] = []"
| "encryption_addresses (GetEncryptedMnemonic a m x # effs) = a # encryption_addresses effs"
| "encryption_addresses (_ # effs) = encryption_addresses effs"

definition acct_A :: account_t where
  "acct_A = \<lparr> address = ''0xA1'', derivationIndex = 0 \<rparr>"

definition acct_B :: account_t where
  "acct_B = \<lparr> address = ''0xB2'', derivationIndex = 1 \<rparr>"

text \<open>The statuses from which no transition is meant to leave.\<close>

fun terminal :: "status \<Rightarrow> bool" where
  "terminal Redeemed = True"
| "terminal Expired = True"
| "terminal IpMismatch = True"
| "terminal (Failed m) = True"
| "terminal _ = False"

text \<open>A poll whose answer carries the OTP state \<^verbatim>\<open>redeemed\<close>.\<close>

fun reports_redeemed :: "event \<Rightarrow> bool" where
  "reports_redeemed (Poll (Resolved (Response st (Resolved d)))) = (otp d = Some OtpState_Redeemed)"
| "reports_redeemed _ = False"

text \<open>A poll, or a tick at a clock reading before the timestamp \<open>ts\<close>.\<close>

fun before_expiry :: "int \<Rightarrow> event \<Rightarrow> bool" where
  "before_expiry ts (Poll resp) = True"
| "before_expiry ts (Tick now) = (now < ts)"
| "before_expiry ts (Confirm enc resp now) = False"

text \<open>
  Three sessions that have reached a terminal status: one whose submit-blob request was
  rejected in transport, one whose poll was answered \<^verbatim>\<open>{otp: "expired"}\<close> while the code was
  still valid by the local clock, and one whose code is shown and whose second confirm
  was answered 401.
\<close>

definition submit_rejected :: modal_state where
  "submit_rejected =
     run example_props [Confirm (Resolved ''blob'') Rejected 1000] (initial_state 0)"

definition server_expired :: modal_state where
  "server_expired =
     run example_props
       [Poll (Resolved (Response 200
          (Resolved \<lparr> otp = Some ''expired'', expiresAtInSeconds = None \<rparr>)))]
       code_shown"

definition ip_warned :: modal_state where
  "ip_warned =
     run example_props
       [Confirm (Resolved ''blob'') (Resolved (Response 401 Rejected)) 2000] code_shown"

text \<open>A session already redeemed, and two sequences of calls.\<close>

definition redeemed_state :: modal_state where
  "redeemed_state = code_shown\<lparr>redeemed := True\<rparr>"

definition busy :: "event list" where
  "busy =
     [Tick 500000,
      Confirm Rejected (Resolved (Response 401 Rejected)) 3000,
      Poll (Resolved (Response 200
        (Resolved \<lparr> otp = Some ''expired'', expiresAtInSeconds = Some 1 \<rparr>)))]"

definition calm :: "event list" where
  "calm =
     [Tick 1000,
      Poll (Resolved (Response 200
        (Resolved \<lparr> otp = Some ''pending'', expiresAtInSeconds = Some 9 \<rparr>)))]"

text \<open>A confirm whose submit-blob request is answered with status 401.\<close>

fun answered_401 :: "event \<Rightarrow> bool" where
  "answered_401 (Confirm enc (Resolved (Response st body)) now) = (st = IP_MISMATCH_STATUS_CODE)"
| "answered_401 _ = False"

text \<open>
  A call made in state \<open>s\<close> that is a tick at or after the expiry held by \<open>s\<close>, a poll not
  answered \<^verbatim>\<open>redeemed\<close>, or a confirm not answered 401; and a sequence of calls each of
  which is such a call in the state in which it is made.
\<close>

fun late_call :: "event \<Rightarrow> modal_state \<Rightarrow> bool" where
  "late_call (Tick now) s = (expirationTimestamp s \<le> now)"
| "late_call ev s = (\<not> reports_redeemed ev \<and> \<not> answered_401 ev)"

fun late_calls :: "props \<Rightarrow> event list \<Rightarrow> modal_state \<Rightarrow> bool" where
  "late_calls p [] s = True"
| "late_calls p (ev # evs) s = (late_call ev s \<and> late_calls p evs (fst (handle p ev s)))"

text \<open>
  A sequence of late calls for the session reported expired: the server shortens the
  expiry to 9000, the next tick comes after that, a confirm fails in transport.
\<close>

definition late :: "event list" where
  "late =
     [Tick 120000,
      Poll (Resolved (Response 200
        (Resolved \<lparr> otp = Some ''pending'', expiresAtInSeconds = Some 9 \<rparr>))),
      Tick 9000,
      Confirm (Resolved ''blob'') Rejected 10000,
      Poll (Resolved (Response 200
        (Resolved \<lparr> otp = Some ''expired'', expiresAtInSeconds = None \<rparr>)))]"

text \<open>The answer \<^verbatim>\<open>200 {otp: "redeemed"}\<close> of a poll.\<close>

definition redeemed_answer :: "OtpStateApiResponse response promise" where
  "redeemed_answer =
     Resolved (Response 200 (Resolved \<lparr> otp = Some ''redeemed'', expiresAtInSeconds = None \<rparr>))"

section \<open>Properties\<close>

lemmas handler_defs =
  onEncryptSeedphrase_def encrypt_step_def submit_step_def submit_failed_def
  checkOTPState_def poll_failed_def tick_def

lemmas view_defs = status_of_def render_screen_def render_dispatches_def

lemmas const_defs =
  ONE_SECOND_MS_def ONE_MINUTE_MS_def IP_MISMATCH_STATUS_CODE_def ok_def t_key_def
  OtpState_Redeemed_def OtpState_Expired_def OtpState_Pending_def

lemmas example_defs = example_props_def code_shown_def initial_state_def

subsection \<open>The confirm handler\<close>

text \<open>
  C1. The claim: when the encryption call fails, the handler records the encryption
  error and stops, so that no submit-blob request is made. The handler evaluated at a
  rejected encryption and a submit-blob answer \<^verbatim>\<open>200 {otp: "123456"}\<close>: after the log entry
  of the encryption failure it posts the blob, which is the empty string, and stores the
  passcode of the answer; the session is left awaiting redemption with the encryption
  message still set behind the code screen.
\<close>

theorem encryption_failure_still_submits:
  "onEncryptSeedphrase example_props Rejected
       (Resolved (Response 200 (Resolved (Some ''123456'')))) 1000 (initial_state 0) =
     (\<lparr> OTP = ''123456'', expirationTimestamp = 121000, expired = False, redeemed = False,
        error = ''scantastic.error.encryption'', showIPWarning = False \<rparr>,
      [GetEncryptedMnemonic ''0xA1'' ''n'' ''e'',
       LoggerError ''onEncryptSeedphrase->getEncryptedMnemonic'',
       FetchBlob (Some ''abc'') []])
   \<and> status_of (fst (onEncryptSeedphrase example_props Rejected
       (Resolved (Response 200 (Resolved (Some ''123456'')))) 1000 (initial_state 0)))
     = AwaitingRedemption"
  by (simp add: handler_defs view_defs const_defs example_defs)

text \<open>
  C5. When the submit-blob request succeeds (a status from 200 to 299 and a readable body) with
  a non-empty passcode \<open>v\<close> in the body, the handler stores \<open>v\<close> unchanged and sets the
  expiry to the clock reading at the response plus two minutes; a session that was not
  redeemed, warned about its IP or expired before (as one awaiting confirmation is)
  then awaits redemption. This holds whatever the encryption call returned.
\<close>

theorem submit_success_stores_otp:
  assumes "pubKey p = Some k" and "ok st" and "v \<noteq> []"
  shows "OTP (fst (onEncryptSeedphrase p enc (Resolved (Response st (Resolved (Some v)))) now s)) = v
    \<and> expirationTimestamp
        (fst (onEncryptSeedphrase p enc (Resolved (Response st (Resolved (Some v)))) now s))
        = now + 2 * ONE_MINUTE_MS
    \<and> (\<not> redeemed s \<and> \<not> showIPWarning s \<and> \<not> expired s \<longrightarrow>
        status_of (fst (onEncryptSeedphrase p enc (Resolved (Response st (Resolved (Some v)))) now s))
          = AwaitingRedemption)"
  using assms
  by (cases k; cases enc)
     (simp_all add: handler_defs view_defs const_defs)

theorem submit_success_stores_otp_witness:
  "pubKey example_props = Some (PubKey ''n'' ''e'') \<and> ok 200 \<and> ''123456'' \<noteq> []
   \<and> \<not> redeemed (initial_state 0) \<and> \<not> showIPWarning (initial_state 0)
   \<and> \<not> expired (initial_state 0)
   \<and> OTP (fst (onEncryptSeedphrase example_props (Resolved ''blob'')
        (Resolved (Response 200 (Resolved (Some ''123456'')))) 1000 (initial_state 0))) = ''123456''
   \<and> expirationTimestamp (fst (onEncryptSeedphrase example_props (Resolved ''blob'')
        (Resolved (Response 200 (Resolved (Some ''123456'')))) 1000 (initial_state 0))) = 121000
   \<and> status_of (fst (onEncryptSeedphrase example_props (Resolved ''blob'')
        (Resolved (Response 200 (Resolved (Some ''123456'')))) 1000 (initial_state 0)))
       = AwaitingRedemption"
  using submit_success_stores_otp [of example_props "PubKey ''n'' ''e''" 200 "''123456''"
      "Resolved ''blob''" 1000 "initial_state 0"]
  by (simp add: example_defs const_defs)

text \<open>
  C6. When the submit-blob request returns status 401, the IP warning is set whatever
  the body of the answer is (readable or not) and whatever the encryption call returned;
  a session that was not redeemed before is then in status \<open>IpMismatch\<close>.
\<close>

theorem submit_401_ip_mismatch:
  assumes "pubKey p = Some k"
  shows "showIPWarning (fst (onEncryptSeedphrase p enc (Resolved (Response 401 body)) now s))
    \<and> (status_of s \<noteq> Redeemed \<longrightarrow>
        status_of (fst (onEncryptSeedphrase p enc (Resolved (Response 401 body)) now s))
          = IpMismatch)"
  using assms
  by (cases k; cases enc)
     (simp_all add: handler_defs view_defs const_defs)

theorem submit_401_ip_mismatch_witness:
  "pubKey example_props = Some (PubKey ''n'' ''e'')
   \<and> status_of (initial_state 0) \<noteq> Redeemed
   \<and> showIPWarning (fst (onEncryptSeedphrase example_props (Resolved ''blob'')
        (Resolved (Response 401 (Resolved (Some ''123456'')))) 1000 (initial_state 0)))
   \<and> status_of (fst (onEncryptSeedphrase example_props (Resolved ''blob'')
        (Resolved (Response 401 (Resolved (Some ''123456'')))) 1000 (initial_state 0)))
       = IpMismatch"
  using submit_401_ip_mismatch [of example_props "PubKey ''n'' ''e''" "Resolved ''blob''"
      "Resolved (Some ''123456'')" 1000 "initial_state 0"]
  by (simp add: example_defs view_defs)

subsection \<open>The polling callback\<close>




text \<open>
  C8. A poll that fails in transport, is answered with a status outside 200 to 299, or is
  answered without an OTP state (also when the body cannot be read) leaves every cell of
  the state as it was: passcode, expiry and all flags, hence the status.
\<close>

theorem poll_failure_keeps_state:
  assumes "poll_failure resp"
  shows "fst (checkOTPState p resp s) = s"
  using assms
  by (cases "(resp)" rule: poll_failure.cases)
     (auto simp add: checkOTPState_def poll_failed_def split: option.splits)

theorem poll_failure_keeps_state_witness:
  "poll_failure (Resolved (Response 200
       (Resolved \<lparr> otp = None, expiresAtInSeconds = Some 300 \<rparr>)))
   \<and> fst (checkOTPState example_props
        (Resolved (Response 200 (Resolved \<lparr> otp = None, expiresAtInSeconds = Some 300 \<rparr>)))
        code_shown) = code_shown"
  using poll_failure_keeps_state [of
      "Resolved (Response 200 (Resolved \<lparr> otp = None, expiresAtInSeconds = Some 300 \<rparr>))"
      example_props code_shown]
  by (simp add: const_defs)

subsection \<open>The expiry interval\<close>

text \<open>
  C9. For a session awaiting redemption, a tick at a clock reading that is not before
  the expiry makes the status \<open>Expired\<close>; no poll is involved.
\<close>

theorem tick_expires:
  assumes "status_of s = AwaitingRedemption" and "expirationTimestamp s \<le> now"
  shows "status_of (tick now s) = Expired"
  using assms
  by (auto simp add: tick_def view_defs split: if_splits)

theorem tick_expires_witness:
  "status_of code_shown = AwaitingRedemption \<and> expirationTimestamp code_shown \<le> 120000
   \<and> status_of (tick 120000 code_shown) = Expired"
  using tick_expires [of code_shown 120000]
  by (simp add: example_defs view_defs)

subsection \<open>Flags that are never cleared\<close>

lemma onEncryptSeedphrase_redeemed:
  "redeemed (fst (onEncryptSeedphrase p enc resp now s)) = redeemed s"
  by (simp add: handler_defs Let_def
      split: option.splits pub_key.splits promise.splits response.splits)

lemma onEncryptSeedphrase_showIPWarning:
  "showIPWarning s \<Longrightarrow> showIPWarning (fst (onEncryptSeedphrase p enc resp now s))"
  by (simp add: handler_defs Let_def
      split: option.splits pub_key.splits promise.splits response.splits)

lemma checkOTPState_redeemed:
  "redeemed s \<Longrightarrow> redeemed (fst (checkOTPState p resp s))"
  by (simp add: handler_defs Let_def
      split: option.splits promise.splits response.splits)

lemma checkOTPState_showIPWarning:
  "showIPWarning (fst (checkOTPState p resp s)) = showIPWarning s"
  by (simp add: handler_defs Let_def
      split: option.splits promise.splits response.splits)

lemma checkOTPState_not_redeemed:
  "\<not> reports_redeemed (Poll resp) \<Longrightarrow> redeemed (fst (checkOTPState p resp s)) = redeemed s"
  by (cases "(Poll resp)" rule: reports_redeemed.cases)
     (simp_all add: handler_defs Let_def
        split: option.splits promise.splits response.splits)

lemma handle_redeemed:
  "redeemed s \<Longrightarrow> redeemed (fst (handle p ev s))"
  by (cases ev) (simp_all add: onEncryptSeedphrase_redeemed checkOTPState_redeemed tick_def)

lemma handle_showIPWarning:
  "showIPWarning s \<Longrightarrow> showIPWarning (fst (handle p ev s))"
  by (cases ev)
     (simp_all add: onEncryptSeedphrase_showIPWarning checkOTPState_showIPWarning tick_def)

lemma handle_not_redeemed:
  "\<not> reports_redeemed ev \<Longrightarrow> redeemed (fst (handle p ev s)) = redeemed s"
  by (cases ev) (simp_all add: onEncryptSeedphrase_redeemed checkOTPState_not_redeemed tick_def)

lemma run_redeemed:
  "redeemed s \<Longrightarrow> redeemed (run p evs s)"
  by (induction evs arbitrary: s) (simp_all add: handle_redeemed)

lemma run_showIPWarning:
  "showIPWarning s \<Longrightarrow> showIPWarning (run p evs s)"
  by (induction evs arbitrary: s) (simp_all add: handle_showIPWarning)

lemma run_not_redeemed:
  "\<not> list_ex reports_redeemed evs \<Longrightarrow> redeemed (run p evs s) = redeemed s"
  by (induction evs arbitrary: s) (simp_all add: handle_not_redeemed)

lemma handle_before_expiry:
  assumes "OTP s = []" and "\<not> expired s" and "before_expiry (expirationTimestamp s) ev"
  shows "fst (handle p ev s) = s"
  using assms
  by (cases ev) (simp_all add: checkOTPState_def tick_def split: option.splits)

lemma run_before_expiry:
  assumes "OTP s = []" and "\<not> expired s"
    and "list_all (before_expiry (expirationTimestamp s)) evs"
  shows "run p evs s = s"
  using assms
  by (induction evs) (simp_all add: handle_before_expiry)

lemma status_Redeemed_iff: "status_of s = Redeemed \<longleftrightarrow> redeemed s"
  by (simp add: view_defs)

lemma status_IpMismatch_iff: "status_of s = IpMismatch \<longleftrightarrow> \<not> redeemed s \<and> showIPWarning s"
  by (simp add: view_defs)

lemma status_Failed_D:
  "status_of s = Failed m \<Longrightarrow> OTP s = [] \<and> \<not> expired s"
  by (simp add: view_defs split: if_splits)


subsection \<open>Terminal statuses\<close>

lemma submit_rejected_eq:
  "submit_rejected = \<lparr> OTP = [], expirationTimestamp = 360000, expired = False,
       redeemed = False, error = ''scantastic.error.noCode'', showIPWarning = False \<rparr>"
  by (simp add: submit_rejected_def handler_defs const_defs example_defs)

lemma server_expired_eq:
  "server_expired = \<lparr> OTP = ''123456'', expirationTimestamp = 120000, expired = True,
       redeemed = False, error = [], showIPWarning = False \<rparr>"
  by (simp add: server_expired_def handler_defs const_defs example_defs)

lemma ip_warned_eq:
  "ip_warned = \<lparr> OTP = ''123456'', expirationTimestamp = 120000, expired = False,
       redeemed = False, error = [], showIPWarning = True \<rparr>"
  by (simp add: ip_warned_def handler_defs const_defs example_defs)

lemma server_expired_status: "status_of server_expired = Expired"
  by (simp add: server_expired_eq view_defs)

text \<open>
  C2, as stated, fails. The claim: once the status is terminal (Redeemed, Expired,
  IpMismatch or Failed), no sequence of confirm, poll and tick calls changes it. Sessions
  in a terminal status and a call that changes it: the failed one becomes \<open>Expired\<close> by the
  tick at the end of the scan window (the interval sets the flag whatever screen is
  shown) and awaits redemption after a second, successful confirm; the one the server
  reported expired goes back to awaiting redemption at the next tick, since the interval
  assigns the comparison with the clock and the local expiry is still ahead, becomes
  \<open>Redeemed\<close> by a poll answered \<^verbatim>\<open>redeemed\<close> and \<open>IpMismatch\<close> by a confirm answered 401;
  the IP-warned one that holds a code becomes \<open>Redeemed\<close> by a poll answered
  \<^verbatim>\<open>redeemed\<close>.
\<close>

theorem terminal_status_changes:
  "terminal (status_of submit_rejected)
   \<and> status_of (run example_props [Tick 360000] submit_rejected) \<noteq> status_of submit_rejected
   \<and> status_of (run example_props
        [Confirm (Resolved ''blob'') (Resolved (Response 200 (Resolved (Some ''123456'')))) 2000]
        submit_rejected) = AwaitingRedemption
   \<and> status_of server_expired = Expired
   \<and> status_of (run example_props [Tick 2000] server_expired) = AwaitingRedemption
   \<and> status_of (run example_props [Poll redeemed_answer] server_expired) = Redeemed
   \<and> status_of (run example_props
        [Confirm (Resolved ''blob'') (Resolved (Response 401 Rejected)) 2000] server_expired)
       = IpMismatch
   \<and> status_of ip_warned = IpMismatch
   \<and> status_of (run example_props [Poll redeemed_answer] ip_warned) = Redeemed"
  by (simp add: submit_rejected_eq server_expired_eq ip_warned_eq redeemed_answer_def
        handler_defs view_defs const_defs example_props_def)

subsection \<open>What keeps a terminal status\<close>

lemma onEncryptSeedphrase_expired:
  "expired (fst (onEncryptSeedphrase p enc resp now s)) = expired s"
  by (simp add: handler_defs Let_def
      split: option.splits pub_key.splits promise.splits response.splits)

lemma onEncryptSeedphrase_not_401:
  "\<not> answered_401 (Confirm enc resp now) \<Longrightarrow>
     showIPWarning (fst (onEncryptSeedphrase p enc resp now s)) = showIPWarning s"
  by (cases "(Confirm enc resp now)" rule: answered_401.cases)
     (simp_all add: handler_defs Let_def
        split: option.splits pub_key.splits promise.splits response.splits)

lemma checkOTPState_expired:
  "expired s \<Longrightarrow> expired (fst (checkOTPState p resp s))"
  by (simp add: handler_defs Let_def
      split: option.splits promise.splits response.splits)

text \<open>The three flags that make the status \<open>Expired\<close>.\<close>

lemma status_Expired_iff:
  "status_of s = Expired \<longleftrightarrow> \<not> redeemed s \<and> \<not> showIPWarning s \<and> expired s"
  by (simp add: view_defs)

lemma handle_late_call:
  assumes "status_of s = Expired" and "late_call ev s"
  shows "status_of (fst (handle p ev s)) = Expired"
proof (cases ev)
  case (Confirm enc resp now)
  with assms show ?thesis
    by (simp add: status_Expired_iff onEncryptSeedphrase_redeemed onEncryptSeedphrase_expired
          onEncryptSeedphrase_not_401)
next
  case (Poll resp)
  with assms show ?thesis
    by (simp add: status_Expired_iff checkOTPState_not_redeemed checkOTPState_showIPWarning
          checkOTPState_expired)
next
  case (Tick now)
  with assms show ?thesis
    by (simp add: status_Expired_iff tick_def)
qed

lemma run_late_calls:
  "status_of s = Expired \<Longrightarrow> late_calls p evs s \<Longrightarrow> status_of (run p evs s) = Expired"
  by (induction evs arbitrary: s) (simp_all add: handle_late_call)

lemma failed_tick_expires:
  assumes "status_of s = Failed m" and "expirationTimestamp s \<le> now"
  shows "status_of (tick now s) = Expired"
  using assms
  by (auto simp add: tick_def view_defs split: if_splits)

text \<open>
  C2, amended. A session whose status is \<open>Redeemed\<close> keeps it under every sequence of
  confirm, poll and tick calls. A session whose status is \<open>IpMismatch\<close> keeps it under
  every such sequence in which no poll is answered \<^verbatim>\<open>redeemed\<close>. A session whose status
  is \<open>Expired\<close> keeps it under every such sequence in which each tick comes at or after
  the expiry held when it comes, no poll is answered \<^verbatim>\<open>redeemed\<close> and no confirm is
  answered 401. A session whose status is \<open>Failed\<close> is left unchanged, in every cell, by
  every sequence of polls and of ticks at clock readings before its expiry, and a tick at
  or after its expiry makes its status \<open>Expired\<close>.
\<close>

theorem settled_status_stable:
  "(status_of s = Redeemed \<longrightarrow> status_of (run p evs s) = Redeemed)
   \<and> (status_of s = IpMismatch \<and> \<not> list_ex reports_redeemed evs
        \<longrightarrow> status_of (run p evs s) = IpMismatch)
   \<and> (status_of s = Expired \<and> late_calls p evs s
        \<longrightarrow> status_of (run p evs s) = Expired)
   \<and> (status_of s = Failed m \<and> list_all (before_expiry (expirationTimestamp s)) evs
        \<longrightarrow> run p evs s = s)
   \<and> (status_of s = Failed m \<and> expirationTimestamp s \<le> now
        \<longrightarrow> status_of (run p [Tick now] s) = Expired)"
proof (intro conjI impI)
  assume "status_of s = Redeemed"
  then show "status_of (run p evs s) = Redeemed"
    by (simp add: status_Redeemed_iff run_redeemed)
next
  assume "status_of s = IpMismatch \<and> \<not> list_ex reports_redeemed evs"
  then show "status_of (run p evs s) = IpMismatch"
    by (simp add: status_IpMismatch_iff run_showIPWarning run_not_redeemed)
next
  assume "status_of s = Expired \<and> late_calls p evs s"
  then show "status_of (run p evs s) = Expired"
    by (simp add: run_late_calls)
next
  assume a: "status_of s = Failed m \<and> list_all (before_expiry (expirationTimestamp s)) evs"
  then have "OTP s = []" "\<not> expired s" using status_Failed_D by blast+
  with a show "run p evs s = s" by (simp add: run_before_expiry)
next
  assume "status_of s = Failed m \<and> expirationTimestamp s \<le> now"
  then show "status_of (run p [Tick now] s) = Expired"
    by (simp add: failed_tick_expires)
qed

theorem settled_status_stable_witness:
  "status_of redeemed_state = Redeemed
   \<and> status_of (run example_props busy redeemed_state) = Redeemed
   \<and> status_of ip_warned = IpMismatch \<and> \<not> list_ex reports_redeemed busy
   \<and> status_of (run example_props busy ip_warned) = IpMismatch
   \<and> status_of server_expired = Expired \<and> late_calls example_props late server_expired
   \<and> status_of (run example_props late server_expired) = Expired
   \<and> status_of submit_rejected = Failed ''scantastic.error.noCode''
   \<and> list_all (before_expiry (expirationTimestamp submit_rejected)) calm
   \<and> run example_props calm submit_rejected = submit_rejected
   \<and> expirationTimestamp submit_rejected \<le> 360000
   \<and> status_of (run example_props [Tick 360000] submit_rejected) = Expired"
proof -
  have a: "status_of redeemed_state = Redeemed"
    by (simp add: redeemed_state_def view_defs)
  have b: "status_of ip_warned = IpMismatch"
    by (simp add: ip_warned_eq view_defs)
  have c: "\<not> list_ex reports_redeemed busy"
    by (simp add: busy_def const_defs)
  have d: "status_of submit_rejected = Failed ''scantastic.error.noCode''"
    by (simp add: submit_rejected_eq view_defs)
  have e: "list_all (before_expiry (expirationTimestamp submit_rejected)) calm"
    by (simp add: submit_rejected_eq calm_def)
  have f: "status_of server_expired = Expired"
    by (rule server_expired_status)
  have g: "late_calls example_props late server_expired"
    by (simp add: late_def server_expired_eq example_props_def handler_defs const_defs)
  have h: "expirationTimestamp submit_rejected \<le> 360000"
    by (simp add: submit_rejected_eq)
  have r1: "status_of (run example_props busy redeemed_state) = Redeemed"
    by (rule settled_status_stable [THEN conjunct1, rule_format, OF a])
  have r2: "status_of (run example_props busy ip_warned) = IpMismatch"
    by (rule settled_status_stable
          [THEN conjunct2, THEN conjunct1, rule_format, OF conjI [OF b c]])
  have r3: "status_of (run example_props late server_expired) = Expired"
    by (rule settled_status_stable
          [THEN conjunct2, THEN conjunct2, THEN conjunct1, rule_format, OF conjI [OF f g]])
  have r4: "run example_props calm submit_rejected = submit_rejected"
    by (rule settled_status_stable
          [THEN conjunct2, THEN conjunct2, THEN conjunct2, THEN conjunct1, rule_format,
           OF conjI [OF d e]])
  have r5: "status_of (run example_props [Tick 360000] submit_rejected) = Expired"
    by (rule settled_status_stable
          [THEN conjunct2, THEN conjunct2, THEN conjunct2, THEN conjunct2, rule_format,
           OF conjI [OF d h]])
  show ?thesis
    by (intro conjI a b c d e f g h r1 r2 r3 r4 r5)
qed

subsection \<open>The completion signal\<close>







subsection \<open>Account selection\<close>

lemma sort_key_head_least:
  assumes "xs \<noteq> []"
  shows "\<exists>a rest. sort_key f xs = a # rest \<and> a \<in> set xs \<and> (\<forall>b\<in>set xs. f a \<le> f b)"
proof -
  from assms have "sort_key f xs \<noteq> []"
    by (metis length_sort length_0_conv)
  then obtain a rest where ar: "sort_key f xs = a # rest"
    by (cases "sort_key f xs") auto
  have "sorted (map f (sort_key f xs))" by (rule sorted_sort_key)
  with ar have le: "\<forall>b\<in>set rest. f a \<le> f b" by simp
  have st: "set (a # rest) = set xs" using ar set_sort [of f xs] by simp
  then have "a \<in> set xs" by auto
  moreover have "\<forall>b\<in>set xs. f a \<le> f b" using le st by auto
  ultimately show ?thesis using ar by blast
qed

lemma select_account_least:
  assumes "accounts \<noteq> []"
  shows "\<exists>a. select_account accounts = Inr a \<and> a \<in> set accounts
           \<and> (\<forall>b\<in>set accounts. derivationIndex a \<le> derivationIndex b)"
  using sort_key_head_least [OF assms, of derivationIndex]
  by (auto simp add: select_account_def)

lemma select_account_order:
  assumes "mset accounts' = mset accounts"
    and "distinct (map derivationIndex accounts)"
  shows "select_account accounts' = select_account accounts"
proof (cases "accounts = []")
  case True
  with assms(1) show ?thesis by simp
next
  case False
  with assms(1) have ne': "accounts' \<noteq> []" by auto
  have sets: "set accounts' = set accounts" using assms(1) by (rule mset_eq_setD)
  from select_account_least [OF False] obtain a where
    a: "select_account accounts = Inr a" "a \<in> set accounts"
       "\<forall>b\<in>set accounts. derivationIndex a \<le> derivationIndex b" by blast
  from select_account_least [OF ne'] obtain a' where
    a': "select_account accounts' = Inr a'" "a' \<in> set accounts'"
        "\<forall>b\<in>set accounts'. derivationIndex a' \<le> derivationIndex b" by blast
  have "derivationIndex a = derivationIndex a'"
    using a a' sets by (simp add: order_antisym)
  moreover have "inj_on derivationIndex (set accounts)"
    using assms(2) by (simp add: distinct_map)
  ultimately have "a = a'" using a(2) a'(2) sets by (auto dest: inj_onD)
  with a a' show ?thesis by simp
qed

lemma encryption_addresses_confirm:
  "encryption_addresses (snd (onEncryptSeedphrase p enc resp now s)) =
     (case pubKey p of None \<Rightarrow> [] | Some k \<Rightarrow> [address (account p)])"
  by (auto simp add: onEncryptSeedphrase_def encrypt_step_def submit_step_def submit_failed_def
        Let_def
      split: option.splits pub_key.splits promise.splits response.splits)

text \<open>
  C10. With at least one signer account, the component mounts with an account of the
  list whose derivation index is the lowest, and every call of the encryption helper
  made by the confirm handler passes the address of that account. When the derivation
  indices are pairwise different, every reordering of the list mounts with the same
  account.
\<close>

theorem encrypts_for_lowest_index_account:
  assumes "accounts \<noteq> []"
  shows "\<exists>a s0. a \<in> set accounts
      \<and> (\<forall>b\<in>set accounts. derivationIndex a \<le> derivationIndex b)
      \<and> ScantasticModal_mount accounts (Some k) u now0
          = Inr (\<lparr> account = a, pubKey = Some k, uuid = u \<rparr>, s0)
      \<and> encryption_addresses
          (snd (onEncryptSeedphrase \<lparr> account = a, pubKey = Some k, uuid = u \<rparr> enc resp now s))
          = [address a]
      \<and> (\<forall>accounts'. mset accounts' = mset accounts \<and> distinct (map derivationIndex accounts)
            \<longrightarrow> ScantasticModal_mount accounts' (Some k) u now0
                  = Inr (\<lparr> account = a, pubKey = Some k, uuid = u \<rparr>, s0))"
proof -
  from select_account_least [OF assms] obtain a where
    a: "select_account accounts = Inr a" "a \<in> set accounts"
       "\<forall>b\<in>set accounts. derivationIndex a \<le> derivationIndex b" by blast
  have m: "ScantasticModal_mount accounts (Some k) u now0
          = Inr (\<lparr> account = a, pubKey = Some k, uuid = u \<rparr>, initial_state now0)"
    using a(1) by (simp add: ScantasticModal_mount_def)
  have o: "ScantasticModal_mount accounts' (Some k) u now0
          = Inr (\<lparr> account = a, pubKey = Some k, uuid = u \<rparr>, initial_state now0)"
    if "mset accounts' = mset accounts" "distinct (map derivationIndex accounts)" for accounts'
    using select_account_order [OF that] a(1) by (simp add: ScantasticModal_mount_def)
  have e: "encryption_addresses
          (snd (onEncryptSeedphrase \<lparr> account = a, pubKey = Some k, uuid = u \<rparr> enc resp now s))
          = [address a]"
    by (simp add: encryption_addresses_confirm)
  from a(2,3) m e o show ?thesis by blast
qed

theorem encrypts_for_lowest_index_account_witness:
  "[acct_B, acct_A] \<noteq> []
   \<and> mset [acct_A, acct_B] = mset [acct_B, acct_A]
   \<and> distinct (map derivationIndex [acct_B, acct_A])
   \<and> ScantasticModal_mount [acct_B, acct_A] (Some (PubKey ''n'' ''e'')) (Some ''abc'') 0
       = Inr (\<lparr> account = acct_A, pubKey = Some (PubKey ''n'' ''e''), uuid = Some ''abc'' \<rparr>,
              initial_state 0)
   \<and> ScantasticModal_mount [acct_A, acct_B] (Some (PubKey ''n'' ''e'')) (Some ''abc'') 0
       = Inr (\<lparr> account = acct_A, pubKey = Some (PubKey ''n'' ''e''), uuid = Some ''abc'' \<rparr>,
              initial_state 0)
   \<and> encryption_addresses
       (snd (onEncryptSeedphrase
          \<lparr> account = acct_A, pubKey = Some (PubKey ''n'' ''e''), uuid = Some ''abc'' \<rparr>
          (Resolved ''blob'') Rejected 1000 (initial_state 0))) = [''0xA1'']"
proof -
  have ne: "[acct_B, acct_A] \<noteq> []" by simp
  have d: "distinct (map derivationIndex [acct_B, acct_A])"
    by (simp add: acct_A_def acct_B_def)
  have ms: "mset [acct_A, acct_B] = mset [acct_B, acct_A]" by simp
  have mnt: "ScantasticModal_mount [acct_B, acct_A] (Some (PubKey ''n'' ''e'')) (Some ''abc'') 0
       = Inr (\<lparr> account = acct_A, pubKey = Some (PubKey ''n'' ''e''), uuid = Some ''abc'' \<rparr>,
              initial_state 0)"
    by (simp add: ScantasticModal_mount_def select_account_def acct_A_def acct_B_def)
  from encrypts_for_lowest_index_account [OF ne, of "PubKey ''n'' ''e''" "Some ''abc''" 0
      "Resolved ''blob''" Rejected 1000 "initial_state 0"]
  obtain a s0 where
    r: "ScantasticModal_mount [acct_B, acct_A] (Some (PubKey ''n'' ''e'')) (Some ''abc'') 0
          = Inr (\<lparr> account = a, pubKey = Some (PubKey ''n'' ''e''), uuid = Some ''abc'' \<rparr>, s0)"
       "encryption_addresses
          (snd (onEncryptSeedphrase \<lparr> account = a, pubKey = Some (PubKey ''n'' ''e''), uuid = Some ''abc'' \<rparr>
             (Resolved ''blob'') Rejected 1000 (initial_state 0))) = [address a]"
       "\<forall>accounts'. mset accounts' = mset [acct_B, acct_A]
            \<and> distinct (map derivationIndex [acct_B, acct_A])
            \<longrightarrow> ScantasticModal_mount accounts' (Some (PubKey ''n'' ''e'')) (Some ''abc'') 0
                  = Inr (\<lparr> account = a, pubKey = Some (PubKey ''n'' ''e''), uuid = Some ''abc'' \<rparr>, s0)"
    by blast
  from r(1) mnt have eq: "a = acct_A" "s0 = initial_state 0" by simp_all
  from r(3) ms d eq have sw:
    "ScantasticModal_mount [acct_A, acct_B] (Some (PubKey ''n'' ''e'')) (Some ''abc'') 0
       = Inr (\<lparr> account = acct_A, pubKey = Some (PubKey ''n'' ''e''), uuid = Some ''abc'' \<rparr>,
              initial_state 0)"
    by blast
  from r(2) eq have "encryption_addresses
       (snd (onEncryptSeedphrase
          \<lparr> account = acct_A, pubKey = Some (PubKey ''n'' ''e''), uuid = Some ''abc'' \<rparr>
          (Resolved ''blob'') Rejected 1000 (initial_state 0))) = [''0xA1'']"
    by (simp add: acct_A_def)
  with ne ms d mnt sw show ?thesis by blast
qed

end
